theory Spec2Isabelle
  imports Main
begin

section \<open>Data model of the transaction status store\<close>

text \<open>
  The store of \<^verbatim>\<open>providers/transactions/index.tsx\<close>: an enum of fetch states, the
  status record kept per signature, the store state and the three actions of the reducer.
  JavaScript numbers that the code only passes through (slot, block time, confirmations)
  are integers here. An optional field that is absent and one that is set to
  \<^verbatim>\<open>undefined\<close> read the same, and both are \<open>None\<close>.
\<close>

datatype FetchStatus = Fetching | FetchFailed | Fetched

datatype Confirmations = Confirmations_number int | Confirmations_max

datatype Timestamp = Timestamp_number int | Timestamp_unavailable

type_synonym TransactionSignature = string

type_synonym TransactionError = string

record SignatureResult =
  err :: "TransactionError option"

record TransactionStatusInfo =
  slot :: int
  result :: SignatureResult
  timestamp :: Timestamp
  confirmations :: Confirmations

text \<open>
  The interface \<^verbatim>\<open>TransactionStatus\<close> declares \<^verbatim>\<open>signature\<close> as required, but
  the reducer can store a record object that has no such property (see the reducer below),
  so the field is optional in the model: \<open>None\<close> is a record without the property.
\<close>

record TransactionStatus =
  fetchStatus :: FetchStatus
  signature :: "TransactionSignature option"
  info :: "TransactionStatusInfo option"

text \<open>
  The \<^verbatim>\<open>transactions\<close> object is a plain object (\<^verbatim>\<open>{}\<close>, or a spread of one
  into an object literal) used as a dictionary. Its own entries are a partial map from
  signature to record.
\<close>

type_synonym Transactions = "TransactionSignature \<rightharpoonup> TransactionStatus"

text \<open>
  Reading \<^verbatim>\<open>transactions[signature]\<close> walks the prototype chain: when the object has
  no own entry for the key, the read gives the member of that name that every plain object
  inherits from \<^verbatim>\<open>Object.prototype\<close>, if there is one, and \<^verbatim>\<open>undefined\<close>
  otherwise. The inherited members are those of the language standard (with its annex for
  web browsers); each is a function, or for \<^verbatim>\<open>__proto__\<close> the prototype object
  itself, so each is truthy and none has an own enumerable property.
\<close>

definition Object_prototype_members :: "string list" where
  "Object_prototype_members =
     [''constructor'', ''hasOwnProperty'', ''isPrototypeOf'', ''propertyIsEnumerable'',
      ''toLocaleString'', ''toString'', ''valueOf'', ''__proto__'',
      ''__defineGetter__'', ''__defineSetter__'', ''__lookupGetter__'', ''__lookupSetter__'']"

datatype property = Undefined | Inherited_member | Own_record TransactionStatus

definition get_property :: "Transactions \<Rightarrow> TransactionSignature \<Rightarrow> property" where
  "get_property object sig =
     (case object sig of
        Some transaction \<Rightarrow> Own_record transaction
      | None \<Rightarrow>
          if sig \<in> set Object_prototype_members then Inherited_member else Undefined)"

record State =
  transactions :: Transactions
  url :: string

text \<open>
  The actions, with their fields in the order of the interfaces:
  \<open>UpdateStatus url signature fetchStatus info\<close>, \<open>FetchSignature url signature\<close>,
  \<open>Clear url\<close>.
\<close>

datatype Action =
    UpdateStatus string TransactionSignature FetchStatus "TransactionStatusInfo option"
  | FetchSignature string TransactionSignature
  | Clear string

fun action_url :: "Action \<Rightarrow> string" where
  "action_url (UpdateStatus u sig fs i) = u"
| "action_url (FetchSignature u sig) = u"
| "action_url (Clear u) = u"

fun is_Clear :: "Action \<Rightarrow> bool" where
  "is_Clear (Clear u) = True"
| "is_Clear (UpdateStatus u sig fs i) = False"
| "is_Clear (FetchSignature u sig) = False"

section \<open>The reducer\<close>

text \<open>
  \<^verbatim>\<open>reducer\<close>: Clear replaces the state whatever its url; any other action whose
  url is not the store's returns the state as it is. FetchSignature and UpdateStatus read
  \<^verbatim>\<open>state.transactions[signature]\<close> and test the value for truthiness. An own
  record is truthy, and the new record is its spread with fetchStatus and info
  overwritten. An inherited member is truthy as well: its spread copies no property, so
  the new record has fetchStatus and info only, and no signature. When the read gives
  \<^verbatim>\<open>undefined\<close>, FetchSignature creates the record with its signature, and
  UpdateStatus falls through to \<^verbatim>\<open>return state\<close>. The computed key of the object
  literal always makes an own entry.
\<close>

fun reducer :: "State \<Rightarrow> Action \<Rightarrow> State" where
  "reducer state (Clear u) = \<lparr>transactions = Map.empty, url = u\<rparr>"
| "reducer state (FetchSignature u sig) =
     (if u \<noteq> url state then state
      else (case get_property (transactions state) sig of
              Own_record transaction \<Rightarrow>
                state\<lparr>transactions := (transactions state)
                  (sig \<mapsto> transaction\<lparr>fetchStatus := Fetching, info := None\<rparr>)\<rparr>
            | Inherited_member \<Rightarrow>
                state\<lparr>transactions := (transactions state)
                  (sig \<mapsto> \<lparr>fetchStatus = Fetching, signature = None, info = None\<rparr>)\<rparr>
            | Undefined \<Rightarrow>
                state\<lparr>transactions := (transactions state)
                  (sig \<mapsto> \<lparr>fetchStatus = Fetching, signature = Some sig, info = None\<rparr>)\<rparr>))"
| "reducer state (UpdateStatus u sig fs i) =
     (if u \<noteq> url state then state
      else (case get_property (transactions state) sig of
              Own_record transaction \<Rightarrow>
                state\<lparr>transactions := (transactions state)
                  (sig \<mapsto> transaction\<lparr>fetchStatus := fs, info := i\<rparr>)\<rparr>
            | Inherited_member \<Rightarrow>
                state\<lparr>transactions := (transactions state)
                  (sig \<mapsto> \<lparr>fetchStatus = fs, signature = None, info = i\<rparr>)\<rparr>
            | Undefined \<Rightarrow> state))"

text \<open>
  The state \<^verbatim>\<open>React.useReducer\<close> starts from in \<^verbatim>\<open>TransactionsProvider\<close>:
  no transactions, the url of the cluster.
\<close>

definition initialState :: "string \<Rightarrow> State" where
  "initialState u = \<lparr>transactions = Map.empty, url = u\<rparr>"

text \<open>
  \<^verbatim>\<open>useTransactionStatus\<close> returns \<^verbatim>\<open>context.transactions[signature]\<close>, the
  same read as in the reducer, and throws when there is no provider (the context is
  undefined).
\<close>

datatype error = Error string

definition useTransactionStatus ::
  "State option \<Rightarrow> TransactionSignature \<Rightarrow> error + property" where
  "useTransactionStatus context sig =
     (case context of
        None \<Rightarrow> Inl (Error ''useTransactionStatus must be used within a TransactionsProvider'')
      | Some c \<Rightarrow> Inr (get_property (transactions c) sig))"

text \<open>Key coherence: every record is stored under its own signature.\<close>

definition key_coherent :: "State \<Rightarrow> bool" where
  "key_coherent state =
     (\<forall>k t. transactions state k = Some t \<longrightarrow> signature t = Some k)"

section \<open>The status fetcher\<close>

text \<open>
  \<^verbatim>\<open>fetchTransactionStatus\<close> talks to the outside: it dispatches actions to the
  store, constructs a \<^verbatim>\<open>Connection\<close>, awaits two of its queries and writes to the
  console. Each of these is an effect, recorded in the order it happens.
\<close>

datatype log_arg = Log_string string | Log_number int | Log_error error

datatype effect =
    Dispatch Action
  | New_Connection string
  | Call_getSignatureStatus TransactionSignature
  | Call_getBlockTime int
  | Console_error "log_arg list"

text \<open>
  What \<^verbatim>\<open>getSignatureStatus\<close> resolves with when it finds the transaction (a type
  of the RPC client library): the slot, the confirmations, which are a number or null, and
  the transaction's error, if any.
\<close>

record SignatureStatus =
  status_slot :: int
  status_confirmations :: "int option"
  status_err :: "TransactionError option"

text \<open>
  The RPC client is an external collaborator. A connection answers each query with a value
  or throws: \<^verbatim>\<open>getSignatureStatus\<close> gives a status, or null when it knows no such
  transaction; \<^verbatim>\<open>getBlockTime\<close> gives a number or null.
\<close>

record Connection =
  getSignatureStatus :: "TransactionSignature \<Rightarrow> error + SignatureStatus option"
  getBlockTime :: "int \<Rightarrow> error + int option"

text \<open>
  The surroundings of one call of the fetcher: the fixture cache of module
  \<^verbatim>\<open>./cached\<close> (its predicate \<^verbatim>\<open>isCached\<close> and its table
  \<^verbatim>\<open>CACHED_STATUSES\<close>, which are not part of this file and are taken as
  parameters), and what constructing a connection to a url gives.
\<close>

record Environment =
  isCached :: "string \<Rightarrow> TransactionSignature \<Rightarrow> bool"
  CACHED_STATUSES :: "TransactionSignature \<rightharpoonup> TransactionStatusInfo"
  newConnection :: "string \<Rightarrow> error + Connection"

text \<open>
  Statements of the function body run on its mutable local \<^verbatim>\<open>info\<close>: a statement
  takes the current value of the local and gives the effects it performed, the new value
  of the local and either the value it produced or the exception it threw.
\<close>

type_synonym 'a prog =
  "TransactionStatusInfo option \<Rightarrow> effect list \<times> TransactionStatusInfo option \<times> (error + 'a)"

definition prog_return :: "'a \<Rightarrow> 'a prog" where
  "prog_return x = (\<lambda>l. ([], l, Inr x))"

text \<open>Sequencing: an exception of the first statement skips the rest.\<close>

definition prog_bind :: "'a prog \<Rightarrow> ('a \<Rightarrow> 'b prog) \<Rightarrow> 'b prog" where
  "prog_bind m f =
     (\<lambda>l. case m l of
             (t, l', Inl e) \<Rightarrow> (t, l', Inl e)
           | (t, l', Inr x) \<Rightarrow> (case f x l' of (t', l'', r) \<Rightarrow> (t @ t', l'', r)))"

text \<open>
  \<^verbatim>\<open>try { m } catch (error) { h }\<close>: the handler runs on the exception of the body,
  with the local as the body left it.
\<close>

definition try_catch :: "'a prog \<Rightarrow> (error \<Rightarrow> 'a prog) \<Rightarrow> 'a prog" where
  "try_catch m h =
     (\<lambda>l. case m l of
             (t, l', Inl e) \<Rightarrow> (case h e l' of (t', l'', r) \<Rightarrow> (t @ t', l'', r))
           | (t, l', Inr x) \<Rightarrow> (t, l', Inr x))"

text \<open>An effect that cannot fail: a dispatch, a line on the console.\<close>

definition perform :: "effect \<Rightarrow> unit prog" where
  "perform e = (\<lambda>l. ([e], l, Inr ()))"

text \<open>A call of the collaborator: recorded, then its value or its exception.\<close>

definition call :: "effect \<Rightarrow> error + 'a \<Rightarrow> 'a prog" where
  "call e r = (\<lambda>l. ([e], l, r))"

definition assign_info :: "TransactionStatusInfo option \<Rightarrow> unit prog" where
  "assign_info v = (\<lambda>l. ([], v, Inr ()))"

definition read_info :: "TransactionStatusInfo option prog" where
  "read_info = (\<lambda>l. ([], l, Inr l))"

text \<open>
  \<^verbatim>\<open>fetchTransactionStatus(dispatch, signature, url)\<close>. The local
  \<^verbatim>\<open>fetchStatus\<close> is assigned exactly once on every path, as the last statement of
  the cached branch, of the try block and of its catch block, so each of these produces it
  as its value; \<^verbatim>\<open>blockTime\<close> is null unless the inner try block assigns it. The
  local \<^verbatim>\<open>info\<close> starts undefined. The result is the list of effects and whether
  the function returned or threw. The parameters \<^verbatim>\<open>signature\<close> and
  \<^verbatim>\<open>url\<close> are written \<open>sig\<close> and \<open>u\<close> throughout, the source's names being
  those of record fields.
\<close>

definition fetchTransactionStatus ::
  "Environment \<Rightarrow> TransactionSignature \<Rightarrow> string \<Rightarrow> effect list \<times> (error + unit)" where
  "fetchTransactionStatus env sig u =
     (case
        prog_bind (perform (Dispatch (FetchSignature u sig))) (\<lambda>_.
        prog_bind
          (if isCached env u sig then
             prog_bind (assign_info (CACHED_STATUSES env sig)) (\<lambda>_.
             prog_return Fetched)
           else
             try_catch
               (prog_bind (call (New_Connection u) (newConnection env u)) (\<lambda>connection.
                prog_bind (call (Call_getSignatureStatus sig)
                             (getSignatureStatus connection sig)) (\<lambda>value.
                prog_bind
                  (case value of
                     None \<Rightarrow> prog_return ()
                   | Some v \<Rightarrow>
                       prog_bind
                         (try_catch
                            (call (Call_getBlockTime (status_slot v))
                               (getBlockTime connection (status_slot v)))
                            (\<lambda>error.
                               prog_bind
                                 (perform (Console_error
                                    [Log_string ''Failed to fetch block time for slot '',
                                     Log_number (status_slot v), Log_string '':'',
                                     Log_error error])) (\<lambda>_.
                               prog_return None)))
                         (\<lambda>blockTime.
                            assign_info (Some
                              \<lparr>slot = status_slot v,
                               result = \<lparr>err = status_err v\<rparr>,
                               timestamp =
                                 (case blockTime of
                                    Some n \<Rightarrow> Timestamp_number n
                                  | None \<Rightarrow> Timestamp_unavailable),
                               confirmations =
                                 (case status_confirmations v of
                                    Some n \<Rightarrow> Confirmations_number n
                                  | None \<Rightarrow> Confirmations_max)\<rparr>))) (\<lambda>_.
                prog_return Fetched))))
               (\<lambda>error.
                  prog_bind
                    (perform (Console_error
                       [Log_string ''Failed to fetch transaction status'', Log_error error]))
                    (\<lambda>_.
                  prog_return FetchFailed))) (\<lambda>fetchStatus'.
        prog_bind read_info (\<lambda>info'.
        perform (Dispatch (UpdateStatus u sig fetchStatus' info'))))) None
      of (t, l, r) \<Rightarrow> (t, r))"

text \<open>The actions a run dispatched, in order, and its calls of the RPC client.\<close>

fun dispatched :: "effect list \<Rightarrow> Action list" where
  "dispatched [] = []"
| "dispatched (Dispatch a # es) = a # dispatched es"
| "dispatched (e # es) = dispatched es"

fun is_network :: "effect \<Rightarrow> bool" where
  "is_network (New_Connection u) = True"
| "is_network (Call_getSignatureStatus sig) = True"
| "is_network (Call_getBlockTime n) = True"
| "is_network (Dispatch a) = False"
| "is_network (Console_error xs) = False"

text \<open>
  The states of the store. \<^verbatim>\<open>TransactionsProvider\<close> starts the reducer in the
  initial state; \<^verbatim>\<open>dispatch\<close> is called at three places: with Clear in the
  provider's effect, and with FetchSignature and UpdateStatus in
  \<^verbatim>\<open>fetchTransactionStatus\<close>. Calls of the fetcher overlap at its awaits, so
  between the two dispatches of one call any dispatch of another may come: every action of
  every call is a possible next step.
\<close>

inductive reachable :: "State \<Rightarrow> bool" where
  reachable_initial: "reachable (initialState u)"
| reachable_Clear: "reachable s \<Longrightarrow> reachable (reducer s (Clear u))"
| reachable_fetch:
    "reachable s \<Longrightarrow> a \<in> set (dispatched (fst (fetchTransactionStatus env sig u)))
      \<Longrightarrow> reachable (reducer s a)"

text \<open>Info is present only in a record that is Fetched.\<close>

definition info_only_when_Fetched :: "State \<Rightarrow> bool" where
  "info_only_when_Fetched state =
     (\<forall>k t. transactions state k = Some t \<longrightarrow> fetchStatus t \<noteq> Fetched \<longrightarrow> info t = None)"

text \<open>
  A sample environment for concrete runs: the fixture cache knows the one signature
  \<open>''CACHED''\<close>, and every connection answers the two queries with the given replies.
\<close>

definition example_connection ::
  "error + SignatureStatus option \<Rightarrow> error + int option \<Rightarrow> Connection" where
  "example_connection status_reply block_time_reply =
     \<lparr>getSignatureStatus = (\<lambda>sig. status_reply), getBlockTime = (\<lambda>n. block_time_reply)\<rparr>"

definition example_env ::
  "error + SignatureStatus option \<Rightarrow> error + int option \<Rightarrow> Environment" where
  "example_env status_reply block_time_reply =
     \<lparr>isCached = (\<lambda>u sig. sig = ''CACHED''),
      CACHED_STATUSES = [''CACHED'' \<mapsto>
        \<lparr>slot = 5, result = \<lparr>err = None\<rparr>, timestamp = Timestamp_number 1000,
         confirmations = Confirmations_max\<rparr>],
      newConnection = (\<lambda>u. Inr (example_connection status_reply block_time_reply))\<rparr>"

section \<open>Properties of the reducer\<close>

text \<open>
  C1. An action other than Clear whose url differs from the store's url leaves the state
  unchanged: FetchSignature and UpdateStatus with any signature, fetchStatus and info each
  return the input state, and so does every sequence of such actions, dispatched one after
  the other.
\<close>

theorem reducer_stale_url_unchanged:
  assumes "u \<noteq> url s"
  shows "reducer s (FetchSignature u sig) = s
    \<and> reducer s (UpdateStatus u sig fs i) = s
    \<and> (\<forall>as. (\<forall>a \<in> set as. \<not> is_Clear a \<and> action_url a \<noteq> url s)
          \<longrightarrow> foldl reducer s as = s)"
proof -
  have one: "reducer s a = s" if "\<not> is_Clear a" "action_url a \<noteq> url s" for a
    using that by (cases a) simp_all
  have many: "foldl reducer s as = s"
    if "\<forall>a \<in> set as. \<not> is_Clear a \<and> action_url a \<noteq> url s" for as
    using that by (induction as) (simp_all add: one)
  from assms many show ?thesis by simp
qed

theorem reducer_stale_url_unchanged_witness:
  "''http://b'' \<noteq> url (reducer (initialState ''http://a'') (FetchSignature ''http://a'' ''SIG1''))
   \<and> reducer (reducer (initialState ''http://a'') (FetchSignature ''http://a'' ''SIG1''))
        (UpdateStatus ''http://b'' ''SIG1'' Fetched None)
      = reducer (initialState ''http://a'') (FetchSignature ''http://a'' ''SIG1'')
   \<and> foldl reducer (reducer (initialState ''http://a'') (FetchSignature ''http://a'' ''SIG1''))
        [FetchSignature ''http://b'' ''SIG2'', UpdateStatus ''http://b'' ''SIG1'' FetchFailed None]
      = reducer (initialState ''http://a'') (FetchSignature ''http://a'' ''SIG1'')"
proof -
  let ?s = "reducer (initialState ''http://a'') (FetchSignature ''http://a'' ''SIG1'')"
  have h: "''http://b'' \<noteq> url ?s"
    by (simp add: initialState_def get_property_def Object_prototype_members_def)
  have m: "\<forall>a \<in> set [FetchSignature ''http://b'' ''SIG2'',
              UpdateStatus ''http://b'' ''SIG1'' FetchFailed None].
            \<not> is_Clear a \<and> action_url a \<noteq> url ?s"
    by (simp add: initialState_def get_property_def Object_prototype_members_def)
  from reducer_stale_url_unchanged [OF h, of "''SIG1''" Fetched None] h m
  show ?thesis by blast
qed

text \<open>
  Away from the names of inherited members the reducer separates the two actions as
  intended: with the store's url and a signature that has no record and names no
  inherited member, UpdateStatus returns the state it was given and FetchSignature
  creates the record, with its signature.
\<close>

lemma reducer_unknown_signature_off_prototype:
  assumes "u = url s" and "transactions s sig = None"
    and "sig \<notin> set Object_prototype_members"
  shows "reducer s (UpdateStatus u sig fs i) = s
    \<and> transactions (reducer s (FetchSignature u sig)) sig
        = Some \<lparr>fetchStatus = Fetching, signature = Some sig, info = None\<rparr>"
  using assms by (simp add: get_property_def)

text \<open>
  A FetchSignature with the store's url resets an own record, keeping its signature
  field, and touches no other entry and not the url, whatever the signature is.
\<close>

lemma reducer_FetchSignature_frame:
  assumes "u = url s"
  shows "(\<forall>t. transactions s sig = Some t \<longrightarrow>
            transactions (reducer s (FetchSignature u sig)) sig
              = Some \<lparr>fetchStatus = Fetching, signature = signature t, info = None\<rparr>)
    \<and> (\<forall>k. k \<noteq> sig \<longrightarrow>
            transactions (reducer s (FetchSignature u sig)) k = transactions s k)
    \<and> url (reducer s (FetchSignature u sig)) = url s"
  using assms by (simp add: get_property_def split: option.split)

text \<open>
  C3. That an UpdateStatus for a signature without a record is dropped does not hold of
  the code when the signature names an inherited member. On the empty store with url
  \<open>''http://a''\<close>, the signature \<open>''constructor''\<close> has no record; the read
  \<^verbatim>\<open>state.transactions[action.signature]\<close> gives the inherited function, the test
  \<^verbatim>\<open>if (transaction)\<close> succeeds, and the reducer stores a new record under that key,
  with the action's fetchStatus and info and without a signature.
\<close>

theorem reducer_UpdateStatus_inherited_name_creates_record:
  "url (initialState ''http://a'') = ''http://a''
   \<and> transactions (initialState ''http://a'') ''constructor'' = None
   \<and> transactions (reducer (initialState ''http://a'')
        (UpdateStatus ''http://a'' ''constructor'' Fetched
          (Some \<lparr>slot = 5, result = \<lparr>err = None\<rparr>, timestamp = Timestamp_number 1000,
                 confirmations = Confirmations_max\<rparr>))) ''constructor''
      = Some \<lparr>fetchStatus = Fetched, signature = None,
          info = Some \<lparr>slot = 5, result = \<lparr>err = None\<rparr>, timestamp = Timestamp_number 1000,
                 confirmations = Confirmations_max\<rparr>\<rparr>
   \<and> reducer (initialState ''http://a'')
        (UpdateStatus ''http://a'' ''constructor'' Fetched
          (Some \<lparr>slot = 5, result = \<lparr>err = None\<rparr>, timestamp = Timestamp_number 1000,
                 confirmations = Confirmations_max\<rparr>))
      \<noteq> initialState ''http://a''"
proof -
  let ?s = "reducer (initialState ''http://a'')
        (UpdateStatus ''http://a'' ''constructor'' Fetched
          (Some \<lparr>slot = 5, result = \<lparr>err = None\<rparr>, timestamp = Timestamp_number 1000,
                 confirmations = Confirmations_max\<rparr>))"
  have r: "transactions ?s ''constructor''
      = Some \<lparr>fetchStatus = Fetched, signature = None,
          info = Some \<lparr>slot = 5, result = \<lparr>err = None\<rparr>, timestamp = Timestamp_number 1000,
                 confirmations = Confirmations_max\<rparr>\<rparr>"
    by (simp add: initialState_def get_property_def Object_prototype_members_def)
  have n: "transactions (initialState ''http://a'') ''constructor'' = None"
    by (simp add: initialState_def)
  have u: "url (initialState ''http://a'') = ''http://a''"
    by (simp add: initialState_def)
  have d: "?s \<noteq> initialState ''http://a''"
  proof
    assume "?s = initialState ''http://a''"
    then have "transactions ?s ''constructor''
        = transactions (initialState ''http://a'') ''constructor''"
      by (rule arg_cong)
    with r n show False by (simp only: option.distinct)
  qed
  from u n r d show ?thesis by blast
qed

text \<open>
  C4. That FetchSignature for a signature without a record adds a record with that
  signature does not hold of the code when the signature names an inherited member. On
  the empty store with url \<open>''http://a''\<close>, the signature \<open>''constructor''\<close> has no
  record; the read \<^verbatim>\<open>state.transactions[signature]\<close> gives the inherited function,
  so the reducer takes the branch for an existing record and stores the spread of the
  function, which has no signature, with fetchStatus Fetching and no info.
\<close>

theorem reducer_FetchSignature_inherited_name_no_signature:
  "url (initialState ''http://a'') = ''http://a''
   \<and> transactions (initialState ''http://a'') ''constructor'' = None
   \<and> transactions (reducer (initialState ''http://a'')
        (FetchSignature ''http://a'' ''constructor'')) ''constructor''
      = Some \<lparr>fetchStatus = Fetching, signature = None, info = None\<rparr>
   \<and> transactions (reducer (initialState ''http://a'')
        (FetchSignature ''http://a'' ''constructor'')) ''constructor''
      \<noteq> Some \<lparr>fetchStatus = Fetching, signature = Some ''constructor'', info = None\<rparr>"
  by (simp add: initialState_def get_property_def Object_prototype_members_def)

text \<open>
  C5. An UpdateStatus action with the store's url and a signature that has a record
  overwrites the record's fetchStatus and info with the action's (an absent info
  included); the record's signature field, every other entry of the map and the store's
  url are as before.
\<close>

theorem reducer_UpdateStatus_known_overwrites:
  assumes "u = url s" and "transactions s sig = Some t"
  shows "transactions (reducer s (UpdateStatus u sig fs i)) sig
        = Some \<lparr>fetchStatus = fs, signature = signature t, info = i\<rparr>
    \<and> (\<forall>k. k \<noteq> sig \<longrightarrow>
            transactions (reducer s (UpdateStatus u sig fs i)) k = transactions s k)
    \<and> url (reducer s (UpdateStatus u sig fs i)) = url s"
  using assms by (simp add: get_property_def)

theorem reducer_UpdateStatus_known_overwrites_witness:
  "''http://a'' = url (reducer (reducer (initialState ''x'') (Clear ''http://a''))
        (FetchSignature ''http://a'' ''SIG1''))
   \<and> transactions (reducer (reducer (initialState ''x'') (Clear ''http://a''))
        (FetchSignature ''http://a'' ''SIG1'')) ''SIG1''
      = Some \<lparr>fetchStatus = Fetching, signature = Some ''SIG1'', info = None\<rparr>
   \<and> transactions (reducer (reducer (reducer (initialState ''x'') (Clear ''http://a''))
        (FetchSignature ''http://a'' ''SIG1''))
        (UpdateStatus ''http://a'' ''SIG1'' Fetched
          (Some \<lparr>slot = 5, result = \<lparr>err = None\<rparr>, timestamp = Timestamp_number 1000,
                 confirmations = Confirmations_max\<rparr>))) ''SIG1''
      = Some \<lparr>fetchStatus = Fetched, signature = Some ''SIG1'',
          info = Some \<lparr>slot = 5, result = \<lparr>err = None\<rparr>, timestamp = Timestamp_number 1000,
                 confirmations = Confirmations_max\<rparr>\<rparr>
   \<and> url (reducer (reducer (reducer (initialState ''x'') (Clear ''http://a''))
        (FetchSignature ''http://a'' ''SIG1''))
        (UpdateStatus ''http://a'' ''SIG1'' Fetched
          (Some \<lparr>slot = 5, result = \<lparr>err = None\<rparr>, timestamp = Timestamp_number 1000,
                 confirmations = Confirmations_max\<rparr>))) = ''http://a''"
proof -
  let ?s = "reducer (reducer (initialState ''x'') (Clear ''http://a''))
        (FetchSignature ''http://a'' ''SIG1'')"
  let ?t = "\<lparr>fetchStatus = Fetching, signature = Some ''SIG1'', info = None\<rparr>"
  have h: "''http://a'' = url ?s" by (simp add: initialState_def get_property_def Object_prototype_members_def)
  have k: "transactions ?s ''SIG1'' = Some ?t" by (simp add: initialState_def get_property_def Object_prototype_members_def)
  from reducer_UpdateStatus_known_overwrites [OF h k, of Fetched
      "Some \<lparr>slot = 5, result = \<lparr>err = None\<rparr>, timestamp = Timestamp_number 1000,
                 confirmations = Confirmations_max\<rparr>"] h k
  show ?thesis by simp
qed

text \<open>
  Key coherence is preserved by Clear, and by FetchSignature and UpdateStatus for a
  signature that names no inherited member.
\<close>

lemma reducer_preserves_key_coherent_off_prototype:
  assumes "key_coherent s" and "sig \<notin> set Object_prototype_members"
  shows "key_coherent (reducer s (Clear u))
    \<and> key_coherent (reducer s (FetchSignature u sig))
    \<and> key_coherent (reducer s (UpdateStatus u sig fs i))"
  using assms
  by (auto simp: key_coherent_def get_property_def split: option.splits if_splits)

text \<open>
  It is not preserved by FetchSignature for a signature that names an inherited member:
  the empty store is key coherent, and the state after the action is not.
\<close>

lemma key_coherent_lost_at_inherited_name:
  "key_coherent (initialState ''http://a'')
   \<and> \<not> key_coherent (reducer (initialState ''http://a'')
        (FetchSignature ''http://a'' ''toString''))"
proof -
  let ?s = "reducer (initialState ''http://a'') (FetchSignature ''http://a'' ''toString'')"
  have r: "transactions ?s ''toString''
      = Some \<lparr>fetchStatus = Fetching, signature = None, info = None\<rparr>"
    by (simp add: initialState_def get_property_def Object_prototype_members_def)
  have k0: "key_coherent (initialState ''http://a'')"
    by (simp add: key_coherent_def initialState_def)
  have k1: "\<not> key_coherent ?s"
  proof
    assume "key_coherent ?s"
    with r have "signature \<lparr>fetchStatus = Fetching, signature = None, info = None\<rparr>
        = Some ''toString''"
      unfolding key_coherent_def by blast
    then show False by simp
  qed
  from k0 k1 show ?thesis by blast
qed

text \<open>
  C10. That the reducer preserves key coherence does not hold of the code. The empty
  store with url \<open>''http://a''\<close> has no record, so every record of it is stored under
  its own signature; after FetchSignature for the signature \<open>''toString''\<close>, which names
  an inherited member, the record stored under the key \<open>''toString''\<close> has no signature
  field, and that record is what \<^verbatim>\<open>useTransactionStatus\<close> returns for the signature.
  Nor does a lookup by signature always give a record: on the empty store
  \<^verbatim>\<open>useTransactionStatus\<close> for \<open>''toString''\<close> returns the inherited function.
\<close>

theorem reducer_inherited_name_breaks_key_coherence:
  "transactions (initialState ''http://a'') = Map.empty
   \<and> url (initialState ''http://a'') = ''http://a''
   \<and> transactions (reducer (initialState ''http://a'')
        (FetchSignature ''http://a'' ''toString'')) ''toString''
      = Some \<lparr>fetchStatus = Fetching, signature = None, info = None\<rparr>
   \<and> signature \<lparr>fetchStatus = Fetching, signature = None, info = None\<rparr> \<noteq> Some ''toString''
   \<and> useTransactionStatus (Some (reducer (initialState ''http://a'')
        (FetchSignature ''http://a'' ''toString''))) ''toString''
      = Inr (Own_record \<lparr>fetchStatus = Fetching, signature = None, info = None\<rparr>)
   \<and> useTransactionStatus (Some (initialState ''http://a'')) ''toString''
      = Inr Inherited_member"
  by (simp add: useTransactionStatus_def initialState_def get_property_def
      Object_prototype_members_def)

section \<open>Properties of the status fetcher\<close>

lemmas prog_defs = prog_return_def prog_bind_def try_catch_def perform_def call_def
  assign_info_def read_info_def

lemmas example_defs = example_env_def example_connection_def

text \<open>
  Every exception of a collaborator is caught: whatever the cache and the connection
  answer, the function returns.
\<close>

lemma fetch_never_throws: "snd (fetchTransactionStatus env sig u) = Inr ()"
  by (simp add: fetchTransactionStatus_def prog_defs split: sum.splits option.splits prod.splits)

text \<open>
  C6. For a signature that is not cached, when \<^verbatim>\<open>getSignatureStatus\<close> throws, the
  run is: the FetchSignature dispatch, the construction of the connection, the query, one
  line on the console with the error, and the terminal dispatch of UpdateStatus with
  FetchFailed and no info; the function returns normally. No run of the function, in any
  environment, ends with an exception.
\<close>

theorem fetch_status_query_fails:
  assumes "\<not> isCached env u sig" and "newConnection env u = Inr c"
    and "getSignatureStatus c sig = Inl e"
  shows "fetchTransactionStatus env sig u =
      ([Dispatch (FetchSignature u sig), New_Connection u, Call_getSignatureStatus sig,
        Console_error [Log_string ''Failed to fetch transaction status'', Log_error e],
        Dispatch (UpdateStatus u sig FetchFailed None)], Inr ())
    \<and> (\<forall>env' sig' u'. snd (fetchTransactionStatus env' sig' u') = Inr ())"
  using assms
  by (simp add: fetch_never_throws) (simp add: fetchTransactionStatus_def prog_defs)

theorem fetch_status_query_fails_witness:
  "\<not> isCached (example_env (Inl (Error ''timeout'')) (Inr None)) ''http://a'' ''SIG1''
   \<and> newConnection (example_env (Inl (Error ''timeout'')) (Inr None)) ''http://a''
      = Inr (example_connection (Inl (Error ''timeout'')) (Inr None))
   \<and> getSignatureStatus (example_connection (Inl (Error ''timeout'')) (Inr None)) ''SIG1''
      = Inl (Error ''timeout'')
   \<and> fetchTransactionStatus (example_env (Inl (Error ''timeout'')) (Inr None)) ''SIG1'' ''http://a''
      = ([Dispatch (FetchSignature ''http://a'' ''SIG1''), New_Connection ''http://a'',
          Call_getSignatureStatus ''SIG1'',
          Console_error [Log_string ''Failed to fetch transaction status'',
            Log_error (Error ''timeout'')],
          Dispatch (UpdateStatus ''http://a'' ''SIG1'' FetchFailed None)], Inr ())"
proof -
  let ?env = "example_env (Inl (Error ''timeout'')) (Inr None)"
  let ?c = "example_connection (Inl (Error ''timeout'')) (Inr None)"
  have h1: "\<not> isCached ?env ''http://a'' ''SIG1''" by (simp add: example_defs)
  have h2: "newConnection ?env ''http://a'' = Inr ?c" by (simp add: example_defs)
  have h3: "getSignatureStatus ?c ''SIG1'' = Inl (Error ''timeout'')"
    by (simp add: example_defs)
  from fetch_status_query_fails [OF h1 h2 h3] h1 h2 h3 show ?thesis by blast
qed

text \<open>
  C7. When the status service reports a match, the run dispatches FetchSignature and then,
  as its last effect, UpdateStatus with Fetched and an info whose slot is the reported
  slot, whose confirmations are the reported number, or the sentinel max when the reported
  value is not a number, and whose result carries the reported error. When
  \<^verbatim>\<open>getBlockTime\<close> for that slot throws, the failure is logged and the timestamp is
  the sentinel unavailable, with slot and confirmations as before and the status still
  Fetched; the timestamp is unavailable as well when the block time is null, and is the
  block time otherwise.
\<close>

theorem fetch_match:
  assumes "\<not> isCached env u sig" and "newConnection env u = Inr c"
    and "getSignatureStatus c sig = Inr (Some v)"
  shows "\<exists>i. dispatched (fst (fetchTransactionStatus env sig u))
          = [FetchSignature u sig, UpdateStatus u sig Fetched (Some i)]
      \<and> last (fst (fetchTransactionStatus env sig u))
          = Dispatch (UpdateStatus u sig Fetched (Some i))
      \<and> snd (fetchTransactionStatus env sig u) = Inr ()
      \<and> slot i = status_slot v
      \<and> confirmations i =
          (case status_confirmations v of
             Some n \<Rightarrow> Confirmations_number n | None \<Rightarrow> Confirmations_max)
      \<and> result i = \<lparr>err = status_err v\<rparr>
      \<and> (\<forall>e. getBlockTime c (status_slot v) = Inl e \<longrightarrow>
            timestamp i = Timestamp_unavailable
            \<and> Console_error [Log_string ''Failed to fetch block time for slot '',
                 Log_number (status_slot v), Log_string '':'', Log_error e]
               \<in> set (fst (fetchTransactionStatus env sig u)))
      \<and> (getBlockTime c (status_slot v) = Inr None \<longrightarrow> timestamp i = Timestamp_unavailable)
      \<and> (\<forall>n. getBlockTime c (status_slot v) = Inr (Some n) \<longrightarrow> timestamp i = Timestamp_number n)"
  using assms
  by (cases "getBlockTime c (status_slot v)")
     (auto simp add: fetchTransactionStatus_def prog_defs split: option.splits)

theorem fetch_match_witness:
  "\<not> isCached (example_env
        (Inr (Some \<lparr>status_slot = 5, status_confirmations = None, status_err = None\<rparr>))
        (Inl (Error ''no block time''))) ''http://a'' ''SIG1''
   \<and> newConnection (example_env
        (Inr (Some \<lparr>status_slot = 5, status_confirmations = None, status_err = None\<rparr>))
        (Inl (Error ''no block time''))) ''http://a''
      = Inr (example_connection
        (Inr (Some \<lparr>status_slot = 5, status_confirmations = None, status_err = None\<rparr>))
        (Inl (Error ''no block time'')))
   \<and> getSignatureStatus (example_connection
        (Inr (Some \<lparr>status_slot = 5, status_confirmations = None, status_err = None\<rparr>))
        (Inl (Error ''no block time''))) ''SIG1''
      = Inr (Some \<lparr>status_slot = 5, status_confirmations = None, status_err = None\<rparr>)
   \<and> getBlockTime (example_connection
        (Inr (Some \<lparr>status_slot = 5, status_confirmations = None, status_err = None\<rparr>))
        (Inl (Error ''no block time''))) 5
      = Inl (Error ''no block time'')
   \<and> dispatched (fst (fetchTransactionStatus (example_env
        (Inr (Some \<lparr>status_slot = 5, status_confirmations = None, status_err = None\<rparr>))
        (Inl (Error ''no block time''))) ''SIG1'' ''http://a''))
      = [FetchSignature ''http://a'' ''SIG1'',
         UpdateStatus ''http://a'' ''SIG1'' Fetched
           (Some \<lparr>slot = 5, result = \<lparr>err = None\<rparr>, timestamp = Timestamp_unavailable,
              confirmations = Confirmations_max\<rparr>)]"
proof -
  let ?v = "\<lparr>status_slot = 5, status_confirmations = None, status_err = None\<rparr>"
  let ?env = "example_env (Inr (Some ?v)) (Inl (Error ''no block time''))"
  let ?c = "example_connection (Inr (Some ?v)) (Inl (Error ''no block time''))"
  have h1: "\<not> isCached ?env ''http://a'' ''SIG1''" by (simp add: example_defs)
  have h2: "newConnection ?env ''http://a'' = Inr ?c" by (simp add: example_defs)
  have h3: "getSignatureStatus ?c ''SIG1'' = Inr (Some ?v)" by (simp add: example_defs)
  have h4: "getBlockTime ?c 5 = Inl (Error ''no block time'')" by (simp add: example_defs)
  from fetch_match [OF h1 h2 h3]
  obtain i where d: "dispatched (fst (fetchTransactionStatus ?env ''SIG1'' ''http://a''))
          = [FetchSignature ''http://a'' ''SIG1'',
             UpdateStatus ''http://a'' ''SIG1'' Fetched (Some i)]"
    and s: "slot i = status_slot ?v"
    and c: "confirmations i =
          (case status_confirmations ?v of
             Some n \<Rightarrow> Confirmations_number n | None \<Rightarrow> Confirmations_max)"
    and r: "result i = \<lparr>err = status_err ?v\<rparr>"
    and t: "\<forall>e. getBlockTime ?c (status_slot ?v) = Inl e \<longrightarrow>
            timestamp i = Timestamp_unavailable
            \<and> Console_error [Log_string ''Failed to fetch block time for slot '',
                 Log_number (status_slot ?v), Log_string '':'', Log_error e]
               \<in> set (fst (fetchTransactionStatus ?env ''SIG1'' ''http://a''))"
    by blast
  from t h4 have t': "timestamp i = Timestamp_unavailable" by simp
  from s c r t' have "i = \<lparr>slot = 5, result = \<lparr>err = None\<rparr>,
      timestamp = Timestamp_unavailable, confirmations = Confirmations_max\<rparr>"
    by (cases i) simp
  with d h1 h2 h3 h4 show ?thesis by simp
qed

text \<open>
  C8. For a signature that is not cached, when the status service answers that it knows no
  such transaction (a null value), the run ends with the dispatch of UpdateStatus with
  Fetched and no info: nothing is logged, and the function returns normally.
\<close>

theorem fetch_not_found:
  assumes "\<not> isCached env u sig" and "newConnection env u = Inr c"
    and "getSignatureStatus c sig = Inr None"
  shows "fetchTransactionStatus env sig u =
      ([Dispatch (FetchSignature u sig), New_Connection u, Call_getSignatureStatus sig,
        Dispatch (UpdateStatus u sig Fetched None)], Inr ())"
  using assms
  by (simp add: fetchTransactionStatus_def prog_defs)

theorem fetch_not_found_witness:
  "\<not> isCached (example_env (Inr None) (Inr None)) ''http://a'' ''SIG1''
   \<and> newConnection (example_env (Inr None) (Inr None)) ''http://a''
      = Inr (example_connection (Inr None) (Inr None))
   \<and> getSignatureStatus (example_connection (Inr None) (Inr None)) ''SIG1'' = Inr None
   \<and> fetchTransactionStatus (example_env (Inr None) (Inr None)) ''SIG1'' ''http://a''
      = ([Dispatch (FetchSignature ''http://a'' ''SIG1''), New_Connection ''http://a'',
          Call_getSignatureStatus ''SIG1'',
          Dispatch (UpdateStatus ''http://a'' ''SIG1'' Fetched None)], Inr ())"
proof -
  let ?env = "example_env (Inr None) (Inr None)"
  let ?c = "example_connection (Inr None) (Inr None)"
  have h1: "\<not> isCached ?env ''http://a'' ''SIG1''" by (simp add: example_defs)
  have h2: "newConnection ?env ''http://a'' = Inr ?c" by (simp add: example_defs)
  have h3: "getSignatureStatus ?c ''SIG1'' = Inr None" by (simp add: example_defs)
  from fetch_not_found [OF h1 h2 h3] h1 h2 h3 show ?thesis by blast
qed

text \<open>
  C9. For a url and signature that the fixture cache recognises, the run consists of the
  two dispatches only, FetchSignature and then UpdateStatus with Fetched and the info the
  cache table holds for the signature: no connection is constructed and neither the status
  service nor the block-time service is called.
\<close>

theorem fetch_cached:
  assumes "isCached env u sig"
  shows "fetchTransactionStatus env sig u =
      ([Dispatch (FetchSignature u sig),
        Dispatch (UpdateStatus u sig Fetched (CACHED_STATUSES env sig))], Inr ())
    \<and> filter is_network (fst (fetchTransactionStatus env sig u)) = []"
  using assms
  by (simp add: fetchTransactionStatus_def prog_defs)

theorem fetch_cached_witness:
  "isCached (example_env (Inl (Error ''offline'')) (Inl (Error ''offline''))) ''http://a'' ''CACHED''
   \<and> fetchTransactionStatus (example_env (Inl (Error ''offline'')) (Inl (Error ''offline'')))
        ''CACHED'' ''http://a''
      = ([Dispatch (FetchSignature ''http://a'' ''CACHED''),
          Dispatch (UpdateStatus ''http://a'' ''CACHED'' Fetched
            (Some \<lparr>slot = 5, result = \<lparr>err = None\<rparr>, timestamp = Timestamp_number 1000,
               confirmations = Confirmations_max\<rparr>))], Inr ())"
proof -
  let ?env = "example_env (Inl (Error ''offline'')) (Inl (Error ''offline''))"
  have h: "isCached ?env ''http://a'' ''CACHED''" by (simp add: example_defs)
  have c: "CACHED_STATUSES ?env ''CACHED''
      = Some \<lparr>slot = 5, result = \<lparr>err = None\<rparr>, timestamp = Timestamp_number 1000,
               confirmations = Confirmations_max\<rparr>"
    by (simp add: example_defs)
  from fetch_cached [OF h] h c show ?thesis by simp
qed

section \<open>The invariant of the store\<close>

text \<open>
  The reducer stores the fetchStatus and info of an UpdateStatus as they come. That info
  goes with Fetched only is a property of the actions the fetcher dispatches: it assigns
  \<^verbatim>\<open>info\<close> on the paths that end with Fetched and nowhere else.
\<close>

lemma fetch_dispatches_info_guarded:
  assumes "UpdateStatus u' sig' fs i \<in> set (dispatched (fst (fetchTransactionStatus env sig u)))"
    and "fs \<noteq> Fetched"
  shows "i = None"
  using assms
  by (auto simp add: fetchTransactionStatus_def prog_defs split: sum.splits option.splits if_splits)

lemma reducer_preserves_info_only_when_Fetched:
  assumes "info_only_when_Fetched s"
    and "\<And>u sig fs i. a = UpdateStatus u sig fs i \<Longrightarrow> fs \<noteq> Fetched \<Longrightarrow> i = None"
  shows "info_only_when_Fetched (reducer s a)"
proof (cases a)
  case (UpdateStatus u sig fs i)
  with assms show ?thesis
    by (auto simp: info_only_when_Fetched_def get_property_def split: option.splits if_splits)
next
  case (FetchSignature u sig)
  with assms(1) show ?thesis
    by (auto simp: info_only_when_Fetched_def get_property_def split: option.splits if_splits)
next
  case (Clear u)
  then show ?thesis by (simp add: info_only_when_Fetched_def)
qed

text \<open>
  C2. In every state of the store that is reachable from the initial empty state by the
  dispatches of the program (Clear, and the FetchSignature and UpdateStatus dispatches of
  \<^verbatim>\<open>fetchTransactionStatus\<close>, in any order and for any answers of the
  collaborators), every record whose fetchStatus is not Fetched has no info.
\<close>

theorem reachable_info_only_when_Fetched:
  assumes "reachable s"
  shows "info_only_when_Fetched s"
  using assms
proof (induction rule: reachable.induct)
  case (reachable_initial u)
  show ?case by (simp add: info_only_when_Fetched_def initialState_def)
next
  case (reachable_Clear s u)
  then show ?case by (simp add: info_only_when_Fetched_def)
next
  case (reachable_fetch s a env sig u)
  then show ?case
    by (intro reducer_preserves_info_only_when_Fetched)
       (auto dest: fetch_dispatches_info_guarded)
qed

theorem reachable_info_only_when_Fetched_witness:
  "reachable (foldl reducer (initialState ''http://a'')
      (dispatched (fst (fetchTransactionStatus
         (example_env (Inl (Error ''timeout'')) (Inr None)) ''SIG1'' ''http://a''))))
   \<and> info_only_when_Fetched (foldl reducer (initialState ''http://a'')
      (dispatched (fst (fetchTransactionStatus
         (example_env (Inl (Error ''timeout'')) (Inr None)) ''SIG1'' ''http://a''))))
   \<and> transactions (foldl reducer (initialState ''http://a'')
      (dispatched (fst (fetchTransactionStatus
         (example_env (Inl (Error ''timeout'')) (Inr None)) ''SIG1'' ''http://a'')))) ''SIG1''
      = Some \<lparr>fetchStatus = FetchFailed, signature = Some ''SIG1'', info = None\<rparr>"
proof -
  let ?env = "example_env (Inl (Error ''timeout'')) (Inr None)"
  let ?run = "dispatched (fst (fetchTransactionStatus ?env ''SIG1'' ''http://a''))"
  have run: "?run = [FetchSignature ''http://a'' ''SIG1'',
      UpdateStatus ''http://a'' ''SIG1'' FetchFailed None]"
    by (simp add: fetchTransactionStatus_def prog_defs example_defs)
  have r0: "reachable (initialState ''http://a'')" by (rule reachable_initial)
  have r1: "reachable (reducer (initialState ''http://a'') (FetchSignature ''http://a'' ''SIG1''))"
    by (rule reachable_fetch [OF r0, of _ ?env "''SIG1''" "''http://a''"]) (simp add: run)
  have r2: "reachable (reducer (reducer (initialState ''http://a'')
      (FetchSignature ''http://a'' ''SIG1'')) (UpdateStatus ''http://a'' ''SIG1'' FetchFailed None))"
    by (rule reachable_fetch [OF r1, of _ ?env "''SIG1''" "''http://a''"]) (simp add: run)
  have r: "reachable (foldl reducer (initialState ''http://a'') ?run)"
    using r2 by (simp only: run foldl.simps)
  have t: "transactions (foldl reducer (initialState ''http://a'') ?run) ''SIG1''
      = Some \<lparr>fetchStatus = FetchFailed, signature = Some ''SIG1'', info = None\<rparr>"
    by (simp add: run initialState_def get_property_def Object_prototype_members_def)
  from reachable_info_only_when_Fetched [OF r] r t show ?thesis by blast
qed

end
